theory Spec2Isabelle
  imports Main "HOL-Library.Word"
begin

section \<open>The faster-whisper transcription server\<close>

text \<open>
  A shallow embedding of \<^verbatim>\<open>faster_whisper_server.py\<close>: a FastAPI application with a
  health route and a transcription route over one Whisper model that is loaded when the
  module is executed.

  The speech model and the web framework are third-party libraries. What the program
  calls of them is a parameter of the model (the record \<open>faster_whisper\<close> below) or a
  small definition that says what the call does (\<open>UploadFile_read\<close>, \<open>FastAPI\<close>,
  \<open>CORSMiddleware_call\<close>, \<open>router\<close>, \<open>serve\<close>).
  Console output (\<^verbatim>\<open>print\<close>) is left out: it reaches neither a return value nor a
  global of the module.
\<close>

subsection \<open>Python values\<close>

type_synonym bytes = "8 word list"

text \<open>
  An exception object. \<^verbatim>\<open>except Exception\<close> catches the instances of
  \<^verbatim>\<open>Exception\<close>; \<^verbatim>\<open>KeyboardInterrupt\<close>, \<^verbatim>\<open>SystemExit\<close>,
  \<^verbatim>\<open>GeneratorExit\<close> and \<^verbatim>\<open>asyncio.CancelledError\<close> derive from
  \<^verbatim>\<open>BaseException\<close> only. \<open>str_of e\<close> is \<^verbatim>\<open>str(e)\<close>.
\<close>

datatype exc_class = Exception_subclass | BaseException_only

datatype py_exception = Raised (exc_class_of: exc_class) (str_of: string)

text \<open>The values the handlers return: strings, integers, dicts (in insertion order), tuples.\<close>

datatype pyobj =
    PyStr string
  | PyInt int
  | PyDict "(string \<times> pyobj) list"
  | PyTuple "pyobj list"

text \<open>\<^verbatim>\<open>sep.join(xs)\<close> on a list of strings.\<close>

fun str_join :: "string \<Rightarrow> string list \<Rightarrow> string" where
  "str_join sep [] = []"
| "str_join sep [x] = x"
| "str_join sep (x # y # ys) = x @ sep @ str_join sep (y # ys)"

text \<open>\<^verbatim>\<open>s.split(c)\<close> for a separator \<open>c\<close> of one character.\<close>

fun split_on :: "char \<Rightarrow> string \<Rightarrow> string list" where
  "split_on c [] = [[]]"
| "split_on c (x # xs) =
     (if x = c then [] # split_on c xs
      else (case split_on c xs of
              [] \<Rightarrow> [[x]]
            | w # ws \<Rightarrow> (x # w) # ws))"

text \<open>
  \<^verbatim>\<open>s.lower()\<close> and \<^verbatim>\<open>s.strip()\<close> on text whose characters are below 256 (header values
  are decoded as Latin-1).
\<close>

definition lower :: "string \<Rightarrow> string" where
  "lower s =
     map (\<lambda>c. let n = (of_char c :: nat)
              in if (65 \<le> n \<and> n \<le> 90) \<or> (192 \<le> n \<and> n \<le> 222 \<and> n \<noteq> 215)
                 then char_of (n + 32) else c) s"

definition isspace :: "char \<Rightarrow> bool" where
  "isspace c = ((of_char c :: nat) \<in> set [9, 10, 11, 12, 13, 28, 29, 30, 31, 32, 133, 160])"

definition strip :: "string \<Rightarrow> string" where
  "strip s = rev (dropWhile isspace (rev (dropWhile isspace s)))"

text \<open>
  An iterable as the consumer sees it: it yields its items in order and then either stops
  or raises. The segments that \<^verbatim>\<open>transcribe\<close> returns are such a lazily evaluated
  iterable.
\<close>

datatype 'a iterable = Iterable (yields: "'a list") (raises: "py_exception option")

text \<open>The list comprehension \<^verbatim>\<open>[f(x) for x in it]\<close>.\<close>

definition list_comprehension :: "('a \<Rightarrow> 'b) \<Rightarrow> 'a iterable \<Rightarrow> py_exception + 'b list" where
  "list_comprehension f it =
     (case raises it of
        Some e \<Rightarrow> Inl e
      | None \<Rightarrow> Inr (map f (yields it)))"

subsection \<open>The libraries\<close>

datatype bytesio = BytesIO bytes

text \<open>
  A transcribed segment: the program reads its \<^verbatim>\<open>text\<close> attribute only; the other
  attributes are the extension part of the record.
\<close>

record segment =
  "text" :: string

text \<open>
  The faster-whisper library: the constructor \<^verbatim>\<open>WhisperModel(size, device=, compute_type=)\<close>
  and the method \<^verbatim>\<open>model.transcribe(audio, beam_size=, language=)\<close>, which returns the
  segments and an info object or raises.
\<close>

record ('m, 'i, 'z) faster_whisper =
  WhisperModel :: "string \<Rightarrow> string \<Rightarrow> string \<Rightarrow> py_exception + 'm"
  transcribe :: "'m \<Rightarrow> bytesio \<Rightarrow> int \<Rightarrow> string
                   \<Rightarrow> py_exception + ('z segment_scheme iterable \<times> 'i)"

text \<open>
  The uploaded file that FastAPI binds to the parameter \<^verbatim>\<open>file\<close>, positioned at its
  start. \<^verbatim>\<open>await file.read(size)\<close> returns the whole content when \<open>size\<close> is negative
  (the default is \<open>-1\<close>), at most \<open>size\<close> bytes otherwise, or raises.
\<close>

record upload_file =
  filename :: string
  content :: bytes
  read_error :: "py_exception option"

definition UploadFile_read :: "upload_file \<Rightarrow> int \<Rightarrow> py_exception + bytes" where
  "UploadFile_read f n =
     (case read_error f of
        Some e \<Rightarrow> Inl e
      | None \<Rightarrow> Inr (if n < 0 then content f else take (nat n) (content f)))"

subsection \<open>The application object\<close>

datatype http_method = GET | HEAD | POST | PUT | DELETE | CONNECT | OPTIONS | TRACE | PATCH

text \<open>
  The endpoints of the application: the four documentation endpoints of the framework and
  the two handlers of the program.
\<close>

datatype endpoint =
    Endpoint_openapi
  | Endpoint_swagger_ui_html
  | Endpoint_swagger_ui_redirect
  | Endpoint_redoc_html
  | Endpoint_health
  | Endpoint_transcribe_audio

record route =
  route_methods :: "http_method list"
  route_path :: string
  route_status_code :: "nat option"
  route_endpoint :: endpoint

record cors_middleware =
  allow_origins :: "string list"
  allow_credentials :: bool
  allow_methods :: "string list"
  allow_headers :: "string list"

text \<open>The application: its middleware (outermost first) and its routes, in the order of registration.\<close>

record fastapi =
  user_middleware :: "cors_middleware list"
  routes :: "route list"

text \<open>
  \<^verbatim>\<open>FastAPI()\<close> with its default arguments, as line 13 calls it: the new application already
  has the framework's documentation routes \<^verbatim>\<open>/openapi.json\<close>, \<^verbatim>\<open>/docs\<close>,
  \<^verbatim>\<open>/docs/oauth2-redirect\<close> and \<^verbatim>\<open>/redoc\<close>, each for \<^verbatim>\<open>GET\<close> and \<^verbatim>\<open>HEAD\<close>.
\<close>

definition FastAPI :: fastapi where
  "FastAPI =
     \<lparr>user_middleware = [],
      routes =
        [\<lparr>route_methods = [GET, HEAD], route_path = ''/openapi.json'',
          route_status_code = None, route_endpoint = Endpoint_openapi\<rparr>,
         \<lparr>route_methods = [GET, HEAD], route_path = ''/docs'',
          route_status_code = None, route_endpoint = Endpoint_swagger_ui_html\<rparr>,
         \<lparr>route_methods = [GET, HEAD], route_path = ''/docs/oauth2-redirect'',
          route_status_code = None, route_endpoint = Endpoint_swagger_ui_redirect\<rparr>,
         \<lparr>route_methods = [GET, HEAD], route_path = ''/redoc'',
          route_status_code = None, route_endpoint = Endpoint_redoc_html\<rparr>]\<rparr>"

definition add_middleware :: "fastapi \<Rightarrow> cors_middleware \<Rightarrow> fastapi" where
  "add_middleware a m = a\<lparr>user_middleware := m # user_middleware a\<rparr>"

text \<open>
  \<^verbatim>\<open>@app.get(path)\<close> and \<^verbatim>\<open>@app.post(path)\<close>, with no status code given. A route of
  these decorators answers the one method it names.
\<close>

definition app_get :: "fastapi \<Rightarrow> string \<Rightarrow> endpoint \<Rightarrow> fastapi" where
  "app_get a p f =
     a\<lparr>routes := routes a @
        [\<lparr>route_methods = [GET], route_path = p, route_status_code = None, route_endpoint = f\<rparr>]\<rparr>"

definition app_post :: "fastapi \<Rightarrow> string \<Rightarrow> endpoint \<Rightarrow> fastapi" where
  "app_post a p f =
     a\<lparr>routes := routes a @
        [\<lparr>route_methods = [POST], route_path = p, route_status_code = None, route_endpoint = f\<rparr>]\<rparr>"

subsection \<open>The module's globals and the running process\<close>

record 'm globals =
  app :: fastapi
  MODEL_SIZE :: string
  model :: 'm

text \<open>The calls into the faster-whisper library, as a trace.\<close>

datatype 'm lib_call =
    WhisperModel_call string string string
  | transcribe_call 'm bytesio int string

record 'm process =
  globals :: "'m globals"
  calls :: "'m lib_call list"

text \<open>
  Executing the module: lines 13 to 38 of the source. An exception of the constructor
  ends the import, and no server exists.
\<close>

definition module_init :: "('m, 'i, 'z) faster_whisper \<Rightarrow> py_exception + 'm process" where
  "module_init lib =
     (let app0 = FastAPI;
          app1 = add_middleware app0
                   \<lparr>allow_origins = [''*''], allow_credentials = True,
                    allow_methods = [''*''], allow_headers = [''*'']\<rparr>;
          model_size = ''base''
      in case WhisperModel lib model_size ''cpu'' ''int8'' of
           Inl e \<Rightarrow> Inl e
         | Inr m \<Rightarrow>
             (let app2 = app_get app1 ''/health'' Endpoint_health;
                  app3 = app_post app2 ''/v1/audio/transcriptions'' Endpoint_transcribe_audio
              in Inr \<lparr>globals = \<lparr>app = app3, MODEL_SIZE = model_size, model = m\<rparr>,
                      calls = [WhisperModel_call model_size ''cpu'' ''int8'']\<rparr>))"

subsection \<open>The handlers\<close>

text \<open>
  A handler takes the process and returns its result with the process after it: \<open>Inr\<close>
  the returned value, \<open>Inl\<close> an exception that leaves the handler.
\<close>

definition health :: "'m process \<Rightarrow> (py_exception + pyobj) \<times> 'm process" where
  "health p =
     (Inr (PyDict [(''status'', PyStr ''ok''), (''model'', PyStr (MODEL_SIZE (globals p)))]), p)"

text \<open>The body of the \<^verbatim>\<open>try\<close> block of \<^verbatim>\<open>transcribe_audio\<close>.\<close>

definition transcribe_audio_try ::
  "('m, 'i, 'z) faster_whisper \<Rightarrow> 'm process \<Rightarrow> upload_file
     \<Rightarrow> (py_exception + pyobj) \<times> 'm process" where
  "transcribe_audio_try lib p file =
     (case UploadFile_read file (- 1) of
        Inl e \<Rightarrow> (Inl e, p)
      | Inr audio_bytes \<Rightarrow>
          (let audio = BytesIO audio_bytes;
               p' = p\<lparr>calls := calls p @ [transcribe_call (model (globals p)) audio 5 ''es'']\<rparr>
           in case transcribe lib (model (globals p)) audio 5 ''es'' of
                Inl e \<Rightarrow> (Inl e, p')
              | Inr (segments, info) \<Rightarrow>
                  (case list_comprehension text segments of
                     Inl e \<Rightarrow> (Inl e, p')
                   | Inr texts \<Rightarrow>
                       (Inr (PyDict [(''text'', PyStr (str_join '' '' texts))]), p'))))"

text \<open>
  \<^verbatim>\<open>transcribe_audio\<close>: the \<^verbatim>\<open>try\<close> block with its handler
  \<^verbatim>\<open>except Exception as e: return {"error": str(e)}, 500\<close>.
\<close>

definition transcribe_audio ::
  "('m, 'i, 'z) faster_whisper \<Rightarrow> 'm process \<Rightarrow> upload_file
     \<Rightarrow> (py_exception + pyobj) \<times> 'm process" where
  "transcribe_audio lib p file =
     (case transcribe_audio_try lib p file of
        (Inr v, p') \<Rightarrow> (Inr v, p')
      | (Inl e, p') \<Rightarrow>
          (case exc_class_of e of
             Exception_subclass \<Rightarrow>
               (Inr (PyTuple [PyDict [(''error'', PyStr (str_of e))], PyInt 500]), p')
           | BaseException_only \<Rightarrow> (Inl e, p')))"

subsection \<open>Serving a request\<close>

text \<open>
  A request: its method and path, its headers (names in lower case, as the server hands
  them over), the upload bound to the form field \<^verbatim>\<open>file\<close> (if the form has one) and the
  other form fields, such as \<^verbatim>\<open>model\<close> and \<^verbatim>\<open>language\<close>.
\<close>

record request =
  req_method :: http_method
  req_path :: string
  req_headers :: "(string \<times> string) list"
  req_file :: "upload_file option"
  req_form :: "(string \<times> string) list"

text \<open>
  What the application does with a request: \<open>Response\<close> carries the status code of the
  route (200 where the decorator gives none) and the value a handler of the program
  returned; \<open>Framework_response\<close> is an answer of the framework alone, with its status code
  (a documentation page, the answer to a CORS preflight, a redirect, 404, 405, 422);
  \<open>Propagated\<close> is an exception that left a handler.
\<close>

datatype served = Response nat pyobj | Framework_response nat | Propagated py_exception

text \<open>
  The CORS middleware of lines 16 to 22. A request with an \<^verbatim>\<open>Origin\<close> header, the method
  \<^verbatim>\<open>OPTIONS\<close> and an \<^verbatim>\<open>Access-Control-Request-Method\<close> header is a preflight: the
  middleware answers it itself, with 200 when origin, method and headers are allowed and
  400 otherwise. Every other request goes on to the application.
\<close>

definition ALL_METHODS :: "string list" where
  "ALL_METHODS = [''DELETE'', ''GET'', ''HEAD'', ''OPTIONS'', ''PATCH'', ''POST'', ''PUT'']"

definition SAFELISTED_HEADERS :: "string list" where
  "SAFELISTED_HEADERS = [''Accept'', ''Accept-Language'', ''Content-Language'', ''Content-Type'']"

definition preflight_response ::
  "cors_middleware \<Rightarrow> (string \<times> string) list \<Rightarrow> string \<Rightarrow> string \<Rightarrow> nat" where
  "preflight_response m hs requested_origin requested_method =
     (let origin_ok = (''*'' \<in> set (allow_origins m) \<or> requested_origin \<in> set (allow_origins m));
          method_ok = (requested_method \<in>
                         set (if ''*'' \<in> set (allow_methods m) then ALL_METHODS else allow_methods m));
          headers_ok =
            (case map_of hs ''access-control-request-headers'' of
               None \<Rightarrow> True
             | Some requested_headers \<Rightarrow>
                 ''*'' \<in> set (allow_headers m) \<or>
                 list_all (\<lambda>h. strip (lower h) \<in> set (map lower (SAFELISTED_HEADERS @ allow_headers m)))
                   (split_on CHR '','' requested_headers))
      in if origin_ok \<and> method_ok \<and> headers_ok then 200 else 400)"

definition CORSMiddleware_call :: "cors_middleware \<Rightarrow> request \<Rightarrow> nat option" where
  "CORSMiddleware_call m req =
     (case map_of (req_headers req) ''origin'' of
        None \<Rightarrow> None
      | Some origin \<Rightarrow>
          (if req_method req = OPTIONS then
             (case map_of (req_headers req) ''access-control-request-method'' of
                None \<Rightarrow> None
              | Some requested_method \<Rightarrow>
                  Some (preflight_response m (req_headers req) origin requested_method))
           else None))"

fun middleware_stack :: "cors_middleware list \<Rightarrow> request \<Rightarrow> nat option" where
  "middleware_stack [] req = None"
| "middleware_stack (m # ms) req =
     (case CORSMiddleware_call m req of
        Some c \<Rightarrow> Some c
      | None \<Rightarrow> middleware_stack ms req)"

text \<open>
  Calling the endpoint of a route. A documentation endpoint answers 200 with a page of the
  framework. The transcription route needs the form field \<^verbatim>\<open>file\<close>; without it the
  framework answers 422 and the handler does not run.
\<close>

definition call_endpoint ::
  "('m, 'i, 'z) faster_whisper \<Rightarrow> 'm process \<Rightarrow> request \<Rightarrow> route
     \<Rightarrow> served \<times> 'm process" where
  "call_endpoint lib p req r =
     (let code = (case route_status_code r of None \<Rightarrow> 200 | Some c \<Rightarrow> c);
          reply = (\<lambda>res. case res of
                     (Inr v, p') \<Rightarrow> (Response code v, p')
                   | (Inl e, p') \<Rightarrow> (Propagated e, p'))
      in case route_endpoint r of
           Endpoint_openapi \<Rightarrow> (Framework_response code, p)
         | Endpoint_swagger_ui_html \<Rightarrow> (Framework_response code, p)
         | Endpoint_swagger_ui_redirect \<Rightarrow> (Framework_response code, p)
         | Endpoint_redoc_html \<Rightarrow> (Framework_response code, p)
         | Endpoint_health \<Rightarrow> reply (health p)
         | Endpoint_transcribe_audio \<Rightarrow>
             (case req_file req of
                None \<Rightarrow> (Framework_response 422, p)
              | Some file \<Rightarrow> reply (transcribe_audio lib p file)))"

text \<open>
  The router. A route matches fully when path and method agree, partially when only the
  path does. The first full match is called; failing that, a partial match answers 405;
  failing that, when the path with its trailing slash added or removed matches a route,
  the answer is a redirect (307); otherwise 404.
\<close>

datatype match = Match_NONE | Match_PARTIAL | Match_FULL

definition matches :: "route \<Rightarrow> http_method \<Rightarrow> string \<Rightarrow> match" where
  "matches r m path =
     (if route_path r = path
      then (if m \<in> set (route_methods r) then Match_FULL else Match_PARTIAL)
      else Match_NONE)"

definition redirect_path :: "string \<Rightarrow> string" where
  "redirect_path path =
     (if path \<noteq> [] \<and> last path = CHR ''/''
      then rev (dropWhile (\<lambda>c. c = CHR ''/'') (rev path))
      else path @ ''/'')"

definition router ::
  "('m, 'i, 'z) faster_whisper \<Rightarrow> 'm process \<Rightarrow> request \<Rightarrow> served \<times> 'm process" where
  "router lib p req =
     (let rs = routes (app (globals p)); m = req_method req; path = req_path req in
      case find (\<lambda>r. matches r m path = Match_FULL) rs of
        Some r \<Rightarrow> call_endpoint lib p req r
      | None \<Rightarrow>
          (if list_ex (\<lambda>r. matches r m path = Match_PARTIAL) rs then (Framework_response 405, p)
           else if path \<noteq> ''/'' \<and> list_ex (\<lambda>r. matches r m (redirect_path path) \<noteq> Match_NONE) rs
           then (Framework_response 307, p)
           else (Framework_response 404, p)))"

text \<open>The application: the middleware around the router.\<close>

definition serve ::
  "('m, 'i, 'z) faster_whisper \<Rightarrow> 'm process \<Rightarrow> request \<Rightarrow> served \<times> 'm process" where
  "serve lib p req =
     (case middleware_stack (user_middleware (app (globals p))) req of
        Some c \<Rightarrow> (Framework_response c, p)
      | None \<Rightarrow> router lib p req)"

text \<open>The process after a sequence of requests, served one after the other.\<close>

fun serve_all ::
  "('m, 'i, 'z) faster_whisper \<Rightarrow> 'm process \<Rightarrow> request list \<Rightarrow> 'm process" where
  "serve_all lib p [] = p"
| "serve_all lib p (req # reqs) = serve_all lib (snd (serve lib p req)) reqs"

subsection \<open>Example inputs\<close>

text \<open>
  A library whose model transcribes every non-empty audio to two segments and raises on
  empty audio; a second library that answers alike for beam size 5 and language
  \<^verbatim>\<open>"es"\<close> and differently otherwise; uploads; the process right after the module is
  executed; requests.
\<close>

definition example_segments :: "segment list" where
  "example_segments = [\<lparr>text = ''Hola''\<rparr>, \<lparr>text = ''mundo''\<rparr>]"

definition example_whisper :: "(nat, unit, unit) faster_whisper" where
  "example_whisper =
     \<lparr>WhisperModel = (\<lambda>model_size device compute_type. Inr 0),
      transcribe = (\<lambda>m audio beam_size language.
         if audio = BytesIO [] then Inl (Raised Exception_subclass ''Invalid data found when processing input'')
         else Inr (Iterable example_segments None, ()))\<rparr>"

definition bilingual_whisper :: "(nat, unit, unit) faster_whisper" where
  "bilingual_whisper =
     \<lparr>WhisperModel = (\<lambda>model_size device compute_type. Inr 0),
      transcribe = (\<lambda>m audio beam_size language.
         if audio = BytesIO [0x52, 0x49, 0x46, 0x46] \<and> beam_size = 5 \<and> language = ''es''
         then Inr (Iterable example_segments None, ())
         else Inr (Iterable [\<lparr>text = ''Hello world''\<rparr>] None, ()))\<rparr>"

definition interrupted_whisper :: "(nat, unit, unit) faster_whisper" where
  "interrupted_whisper =
     \<lparr>WhisperModel = (\<lambda>model_size device compute_type. Inr 0),
      transcribe = (\<lambda>m audio beam_size language.
         Inr (Iterable [\<lparr>text = ''Hola''\<rparr>] (Some (Raised BaseException_only [])), ()))\<rparr>"

definition example_upload :: upload_file where
  "example_upload = \<lparr>filename = ''audio.wav'', content = [0x52, 0x49, 0x46, 0x46], read_error = None\<rparr>"

definition empty_upload :: upload_file where
  "empty_upload = \<lparr>filename = ''empty.wav'', content = [], read_error = None\<rparr>"

definition cancelled_upload :: upload_file where
  "cancelled_upload =
     \<lparr>filename = ''audio.wav'', content = [0x52, 0x49, 0x46, 0x46],
      read_error = Some (Raised BaseException_only [])\<rparr>"

definition started_process :: "nat process" where
  "started_process =
     \<lparr>globals =
        \<lparr>app = \<lparr>user_middleware =
                   [\<lparr>allow_origins = [''*''], allow_credentials = True,
                     allow_methods = [''*''], allow_headers = [''*'']\<rparr>],
                 routes =
                   [\<lparr>route_methods = [GET, HEAD], route_path = ''/openapi.json'',
                     route_status_code = None, route_endpoint = Endpoint_openapi\<rparr>,
                    \<lparr>route_methods = [GET, HEAD], route_path = ''/docs'',
                     route_status_code = None, route_endpoint = Endpoint_swagger_ui_html\<rparr>,
                    \<lparr>route_methods = [GET, HEAD], route_path = ''/docs/oauth2-redirect'',
                     route_status_code = None, route_endpoint = Endpoint_swagger_ui_redirect\<rparr>,
                    \<lparr>route_methods = [GET, HEAD], route_path = ''/redoc'',
                     route_status_code = None, route_endpoint = Endpoint_redoc_html\<rparr>,
                    \<lparr>route_methods = [GET], route_path = ''/health'',
                     route_status_code = None, route_endpoint = Endpoint_health\<rparr>,
                    \<lparr>route_methods = [POST], route_path = ''/v1/audio/transcriptions'',
                     route_status_code = None, route_endpoint = Endpoint_transcribe_audio\<rparr>]\<rparr>,
         MODEL_SIZE = ''base'', model = 0\<rparr>,
      calls = [WhisperModel_call ''base'' ''cpu'' ''int8'']\<rparr>"

definition health_request :: request where
  "health_request =
     \<lparr>req_method = GET, req_path = ''/health'', req_headers = [], req_file = None, req_form = []\<rparr>"

definition transcription_request :: request where
  "transcription_request =
     \<lparr>req_method = POST, req_path = ''/v1/audio/transcriptions'', req_headers = [],
      req_file = Some example_upload, req_form = []\<rparr>"

definition english_request :: request where
  "english_request =
     \<lparr>req_method = POST, req_path = ''/v1/audio/transcriptions'',
      req_headers = [(''origin'', ''http://localhost:5173'')],
      req_file = Some (example_upload\<lparr>filename := ''speech.mp3''\<rparr>),
      req_form = [(''model'', ''large-v3''), (''language'', ''en'')]\<rparr>"

definition docs_request :: request where
  "docs_request =
     \<lparr>req_method = GET, req_path = ''/docs'', req_headers = [], req_file = None, req_form = []\<rparr>"

definition preflight_request :: request where
  "preflight_request =
     \<lparr>req_method = OPTIONS, req_path = ''/v1/audio/transcriptions'',
      req_headers = [(''origin'', ''http://localhost:5173''),
                     (''access-control-request-method'', ''POST'')],
      req_file = None, req_form = []\<rparr>"

section \<open>Properties\<close>

subsection \<open>The example process\<close>

lemma started: "module_init example_whisper = Inr started_process"
  by (simp add: module_init_def example_whisper_def started_process_def FastAPI_def
      add_middleware_def app_get_def app_post_def Let_def)

subsection \<open>Joining\<close>

lemma str_join_closed_form:
  "str_join sep xs = (if xs = [] then [] else hd xs @ concat (map (\<lambda>x. sep @ x) (tl xs)))"
  by (induction sep xs rule: str_join.induct) simp_all

lemma split_on_no_separator: "c \<notin> set x \<Longrightarrow> split_on c x = [x]"
  by (induction x) auto

lemma split_on_append: "c \<notin> set x \<Longrightarrow> split_on c (x @ c # rest) = x # split_on c rest"
  by (induction x) auto

lemma split_on_str_join:
  "xs \<noteq> [] \<Longrightarrow> \<forall>x\<in>set xs. c \<notin> set x \<Longrightarrow> split_on c (str_join [c] xs) = xs"
proof (induction "[c]" xs rule: str_join.induct)
  case 1
  then show ?case by simp
next
  case (2 x)
  then show ?case by (simp add: split_on_no_separator)
next
  case (3 x y ys)
  then show ?case by (simp add: split_on_append)
qed

subsection \<open>The handler\<close>

lemma read_all: "UploadFile_read f (- 1) = (case read_error f of Some e \<Rightarrow> Inl e | None \<Rightarrow> Inr (content f))"
  by (simp add: UploadFile_read_def)

lemma transcribe_audio_success:
  assumes "UploadFile_read file (- 1) = Inr b"
      and "transcribe lib (model (globals p)) (BytesIO b) 5 ''es'' = Inr (Iterable segs None, info)"
  shows "transcribe_audio lib p file =
           (Inr (PyDict [(''text'', PyStr (str_join '' '' (map text segs)))]),
            p\<lparr>calls := calls p @ [transcribe_call (model (globals p)) (BytesIO b) 5 ''es'']\<rparr>)"
  using assms
  by (simp add: transcribe_audio_def transcribe_audio_try_def list_comprehension_def Let_def)

lemma transcribe_audio_try_calls:
  "calls (snd (transcribe_audio_try lib p file)) =
     calls p @ (case read_error file of
                  None \<Rightarrow> [transcribe_call (model (globals p)) (BytesIO (content file)) 5 ''es'']
                | Some e \<Rightarrow> [])"
  by (simp add: transcribe_audio_try_def read_all Let_def split: option.splits sum.splits prod.splits)

lemma transcribe_audio_snd: "snd (transcribe_audio lib p file) = snd (transcribe_audio_try lib p file)"
  by (simp add: transcribe_audio_def split: prod.splits sum.splits exc_class.splits)

lemma transcribe_audio_try_globals: "globals (snd (transcribe_audio_try lib p file)) = globals p"
  by (simp add: transcribe_audio_try_def Let_def split: option.splits sum.splits prod.splits)

lemma transcribe_audio_try_history:
  "fst (transcribe_audio_try lib (p\<lparr>calls := cs\<rparr>) file) = fst (transcribe_audio_try lib p file)"
  by (simp add: transcribe_audio_try_def Let_def split: option.splits sum.splits prod.splits)

lemma transcribe_audio_calls:
  "calls (snd (transcribe_audio lib p file)) =
     calls p @ (case read_error file of
                  None \<Rightarrow> [transcribe_call (model (globals p)) (BytesIO (content file)) 5 ''es'']
                | Some e \<Rightarrow> [])"
  by (simp only: transcribe_audio_snd transcribe_audio_try_calls)

lemma transcribe_audio_globals: "globals (snd (transcribe_audio lib p file)) = globals p"
  by (simp only: transcribe_audio_snd transcribe_audio_try_globals)

lemma transcribe_audio_fst:
  "fst (transcribe_audio lib p file) =
     (case fst (transcribe_audio_try lib p file) of
        Inr v \<Rightarrow> Inr v
      | Inl e \<Rightarrow> (case exc_class_of e of
                    Exception_subclass \<Rightarrow> Inr (PyTuple [PyDict [(''error'', PyStr (str_of e))], PyInt 500])
                  | BaseException_only \<Rightarrow> Inl e))"
  by (simp add: transcribe_audio_def split: prod.splits sum.splits exc_class.splits)

lemma transcribe_audio_history:
  "fst (transcribe_audio lib (p\<lparr>calls := cs\<rparr>) file) = fst (transcribe_audio lib p file)"
  by (simp only: transcribe_audio_fst transcribe_audio_try_history)

subsection \<open>Serving\<close>

lemma reply_snd:
  "snd (case res of (Inr v, p') \<Rightarrow> (Response code v, p') | (Inl e, p') \<Rightarrow> (Propagated e, p')) = snd res"
  by (simp split: prod.splits sum.splits)

lemma reply_fst:
  "fst (case res of (Inr v, p') \<Rightarrow> (Response code v, p') | (Inl e, p') \<Rightarrow> (Propagated e, p')) =
     (case fst res of Inr v \<Rightarrow> Response code v | Inl e \<Rightarrow> Propagated e)"
  by (simp split: prod.splits sum.splits)

lemma middleware_stack_not_OPTIONS: "req_method req \<noteq> OPTIONS \<Longrightarrow> middleware_stack ms req = None"
  by (induction ms) (simp_all add: CORSMiddleware_call_def split: option.splits)

lemma call_endpoint_globals: "globals (snd (call_endpoint lib p req r)) = globals p"
  by (simp add: call_endpoint_def health_def Let_def reply_snd transcribe_audio_globals
      split: endpoint.splits option.splits)

lemma router_globals: "globals (snd (router lib p req)) = globals p"
  by (simp add: router_def Let_def call_endpoint_globals split: option.splits)

lemma serve_globals: "globals (snd (serve lib p req)) = globals p"
  by (simp add: serve_def router_globals split: option.splits)

lemma serve_all_globals: "globals (serve_all lib p reqs) = globals p"
  by (induction reqs arbitrary: p) (simp_all add: serve_globals)

lemma call_endpoint_history:
  "fst (call_endpoint lib (p\<lparr>calls := cs\<rparr>) req r) = fst (call_endpoint lib p req r)"
  by (simp add: call_endpoint_def health_def Let_def reply_fst transcribe_audio_history
      split: endpoint.splits option.splits)

lemma router_history: "fst (router lib (p\<lparr>calls := cs\<rparr>) req) = fst (router lib p req)"
proof (cases "find (\<lambda>r. matches r (req_method req) (req_path req) = Match_FULL)
                (routes (app (globals p)))")
  case None
  then show ?thesis by (simp add: router_def Let_def)
next
  case (Some r)
  then show ?thesis by (simp add: router_def Let_def call_endpoint_history)
qed

lemma serve_history: "fst (serve lib (p\<lparr>calls := cs\<rparr>) req) = fst (serve lib p req)"
proof (cases "middleware_stack (user_middleware (app (globals p))) req")
  case None
  then show ?thesis by (simp add: serve_def router_history)
next
  case (Some c)
  then show ?thesis by (simp add: serve_def)
qed

lemma call_endpoint_calls:
  "\<exists>cs. calls (snd (call_endpoint lib p req r)) = calls p @ cs
      \<and> (\<forall>c\<in>set cs. \<exists>audio. c = transcribe_call (model (globals p)) audio 5 ''es'')"
  by (simp add: call_endpoint_def health_def Let_def reply_snd transcribe_audio_calls
      split: endpoint.splits option.splits)

lemma router_calls:
  "\<exists>cs. calls (snd (router lib p req)) = calls p @ cs
      \<and> (\<forall>c\<in>set cs. \<exists>audio. c = transcribe_call (model (globals p)) audio 5 ''es'')"
  by (simp add: router_def Let_def call_endpoint_calls split: option.splits)

lemma serve_calls:
  "\<exists>cs. calls (snd (serve lib p req)) = calls p @ cs
      \<and> (\<forall>c\<in>set cs. \<exists>audio. c = transcribe_call (model (globals p)) audio 5 ''es'')"
  by (simp add: serve_def router_calls split: option.splits)

lemma serve_all_calls:
  "\<exists>cs. calls (serve_all lib p reqs) = calls p @ cs
      \<and> (\<forall>c\<in>set cs. \<exists>audio. c = transcribe_call (model (globals p)) audio 5 ''es'')"
proof (induction reqs arbitrary: p)
  case Nil
  show ?case by simp
next
  case (Cons req reqs)
  obtain cs1 where 1: "calls (snd (serve lib p req)) = calls p @ cs1"
    and 2: "\<forall>c\<in>set cs1. \<exists>audio. c = transcribe_call (model (globals p)) audio 5 ''es''"
    using serve_calls [of lib p req] by blast
  obtain cs2 where 3: "calls (serve_all lib (snd (serve lib p req)) reqs) = calls (snd (serve lib p req)) @ cs2"
    and 4: "\<forall>c\<in>set cs2. \<exists>audio. c = transcribe_call (model (globals (snd (serve lib p req)))) audio 5 ''es''"
    using Cons.IH [of "snd (serve lib p req)"] by blast
  have "calls (serve_all lib p (req # reqs)) = calls p @ (cs1 @ cs2)"
    using 1 3 by simp
  moreover have "\<forall>c\<in>set (cs1 @ cs2). \<exists>audio. c = transcribe_call (model (globals p)) audio 5 ''es''"
    using 2 4 by (auto simp add: serve_globals)
  ultimately show ?case by blast
qed

lemma module_init_result:
  assumes "module_init lib = Inr p"
  shows "\<exists>m. WhisperModel lib ''base'' ''cpu'' ''int8'' = Inr m
           \<and> model (globals p) = m
           \<and> MODEL_SIZE (globals p) = ''base''
           \<and> user_middleware (app (globals p)) =
               [\<lparr>allow_origins = [''*''], allow_credentials = True,
                 allow_methods = [''*''], allow_headers = [''*'']\<rparr>]
           \<and> routes (app (globals p)) =
               routes FastAPI @
               [\<lparr>route_methods = [GET], route_path = ''/health'',
                 route_status_code = None, route_endpoint = Endpoint_health\<rparr>,
                \<lparr>route_methods = [POST], route_path = ''/v1/audio/transcriptions'',
                 route_status_code = None, route_endpoint = Endpoint_transcribe_audio\<rparr>]
           \<and> calls p = [WhisperModel_call ''base'' ''cpu'' ''int8'']"
  using assms
  by (auto simp add: module_init_def FastAPI_def add_middleware_def app_get_def app_post_def Let_def
      split: sum.splits)

lemma module_init_routes:
  assumes "module_init lib = Inr p0" and "globals p = globals p0"
  shows "routes (app (globals p)) =
               routes FastAPI @
               [\<lparr>route_methods = [GET], route_path = ''/health'',
                 route_status_code = None, route_endpoint = Endpoint_health\<rparr>,
                \<lparr>route_methods = [POST], route_path = ''/v1/audio/transcriptions'',
                 route_status_code = None, route_endpoint = Endpoint_transcribe_audio\<rparr>]"
  using module_init_result [OF assms(1)] assms(2) by auto

lemma router_health:
  assumes "module_init lib = Inr p0" and "globals p = globals p0"
    and "req_method req = GET" and "req_path req = ''/health''"
  shows "router lib p req =
           (Response 200 (PyDict [(''status'', PyStr ''ok''), (''model'', PyStr (MODEL_SIZE (globals p)))]), p)"
  using module_init_routes [OF assms(1,2)] assms(3,4)
  by (simp add: router_def FastAPI_def matches_def call_endpoint_def health_def Let_def)

lemma serve_health:
  assumes "module_init lib = Inr p0" and "globals p = globals p0"
    and "req_method req = GET" and "req_path req = ''/health''"
  shows "serve lib p req =
           (Response 200 (PyDict [(''status'', PyStr ''ok''), (''model'', PyStr (MODEL_SIZE (globals p)))]), p)"
  using router_health [OF assms] assms(3)
  by (simp add: serve_def middleware_stack_not_OPTIONS)

lemma router_transcription:
  assumes "module_init lib = Inr p0" and "globals p = globals p0"
    and "req_method req = POST" and "req_path req = ''/v1/audio/transcriptions''"
    and "req_file req = Some file"
  shows "router lib p req =
           (case transcribe_audio lib p file of
              (Inr v, p') \<Rightarrow> (Response 200 v, p')
            | (Inl e, p') \<Rightarrow> (Propagated e, p'))"
  using module_init_routes [OF assms(1,2)] assms(3,4,5)
  by (simp add: router_def FastAPI_def matches_def call_endpoint_def Let_def)

lemma serve_transcription:
  assumes "module_init lib = Inr p0" and "globals p = globals p0"
    and "req_method req = POST" and "req_path req = ''/v1/audio/transcriptions''"
    and "req_file req = Some file"
  shows "serve lib p req =
           (case transcribe_audio lib p file of
              (Inr v, p') \<Rightarrow> (Response 200 v, p')
            | (Inl e, p') \<Rightarrow> (Propagated e, p'))"
  using router_transcription [OF assms] assms(3)
  by (simp add: serve_def middleware_stack_not_OPTIONS)

lemma router_other:
  assumes "module_init lib = Inr p0" and "globals p = globals p0"
    and "(req_method req, req_path req) \<noteq> (GET, ''/health'')"
    and "(req_method req, req_path req) \<noteq> (POST, ''/v1/audio/transcriptions'')"
  shows "\<exists>c. router lib p req = (Framework_response c, p)"
  using module_init_routes [OF assms(1,2)] assms(3,4)
  by (auto simp add: router_def FastAPI_def matches_def call_endpoint_def Let_def)

lemma serve_other:
  assumes "module_init lib = Inr p0" and "globals p = globals p0"
    and "(req_method req, req_path req) \<noteq> (GET, ''/health'')"
    and "(req_method req, req_path req) \<noteq> (POST, ''/v1/audio/transcriptions'')"
  shows "\<exists>c. serve lib p req = (Framework_response c, p)"
  using router_other [OF assms]
  by (simp add: serve_def split: option.splits)

subsection \<open>The claims\<close>

text \<open>
  C1 (as amended). When reading the upload succeeds and \<^verbatim>\<open>model.transcribe\<close> returns
  segments whose iteration ends without raising, the handler returns the dict whose
  \<^verbatim>\<open>text\<close> entry is the texts of the segments in their order, with one space between
  each two consecutive texts: the first text, then each later text after a space, and the
  empty string for no segment. With two or more segments this is not their plain
  concatenation: the segments \<^verbatim>\<open>Hola\<close> and \<^verbatim>\<open>mundo\<close> give \<^verbatim>\<open>Hola mundo\<close>.
\<close>

theorem transcription_text_joined_with_spaces:
  assumes "UploadFile_read file (- 1) = Inr b"
      and "transcribe lib (model (globals p)) (BytesIO b) 5 ''es'' = Inr (Iterable segs None, info)"
  shows "fst (transcribe_audio lib p file) =
           Inr (PyDict [(''text'',
                  PyStr (if segs = [] then []
                         else text (hd segs) @ concat (map (\<lambda>s. '' '' @ text s) (tl segs))))])"
proof -
  have "str_join '' '' (map text segs) =
          (if segs = [] then [] else text (hd segs) @ concat (map (\<lambda>s. '' '' @ text s) (tl segs)))"
    by (simp add: str_join_closed_form hd_map map_tl comp_def)
  then show ?thesis
    using transcribe_audio_success [OF assms] by simp
qed

theorem transcription_text_joined_with_spaces_witness:
  "UploadFile_read example_upload (- 1) = Inr [0x52, 0x49, 0x46, 0x46]
   \<and> transcribe example_whisper (model (globals started_process)) (BytesIO [0x52, 0x49, 0x46, 0x46]) 5 ''es''
       = Inr (Iterable example_segments None, ())
   \<and> fst (transcribe_audio example_whisper started_process example_upload) =
       Inr (PyDict [(''text'', PyStr ''Hola mundo'')])"
proof -
  have r: "UploadFile_read example_upload (- 1) = Inr [0x52, 0x49, 0x46, 0x46]"
    by (simp add: UploadFile_read_def example_upload_def)
  have t: "transcribe example_whisper (model (globals started_process)) (BytesIO [0x52, 0x49, 0x46, 0x46]) 5 ''es''
       = Inr (Iterable example_segments None, ())"
    by (simp add: example_whisper_def)
  show ?thesis
    using r t transcription_text_joined_with_spaces [OF r t]
    by (simp add: example_segments_def)
qed

theorem transcription_text_not_plain_concatenation:
  "UploadFile_read example_upload (- 1) = Inr [0x52, 0x49, 0x46, 0x46]
   \<and> transcribe example_whisper (model (globals started_process)) (BytesIO [0x52, 0x49, 0x46, 0x46]) 5 ''es''
       = Inr (Iterable example_segments None, ())
   \<and> concat (map text example_segments) = ''Holamundo''
   \<and> fst (transcribe_audio example_whisper started_process example_upload) \<noteq>
       Inr (PyDict [(''text'', PyStr (concat (map text example_segments)))])"
  by (simp add: UploadFile_read_def example_upload_def example_whisper_def example_segments_def
      transcribe_audio_def transcribe_audio_try_def list_comprehension_def started_process_def)

text \<open>
  C2. After the module is executed and after any sequence of requests, a \<^verbatim>\<open>GET /health\<close>
  request is answered with status 200 and the body
  \<^verbatim>\<open>{"status": "ok", "model": "base"}\<close>: the same response at every invocation.
\<close>

theorem health_returns_ok:
  assumes "module_init lib = Inr p0"
      and "req_method req = GET" and "req_path req = ''/health''"
  shows "fst (serve lib (serve_all lib p0 reqs) req) =
           Response 200 (PyDict [(''status'', PyStr ''ok''), (''model'', PyStr ''base'')])"
proof -
  have g: "globals (serve_all lib p0 reqs) = globals p0"
    by (rule serve_all_globals)
  have "MODEL_SIZE (globals p0) = ''base''"
    using module_init_result [OF assms(1)] by blast
  then show ?thesis
    using serve_health [OF assms(1) g assms(2,3)] g by simp
qed

theorem health_returns_ok_witness:
  "module_init example_whisper = Inr started_process
   \<and> req_method health_request = GET \<and> req_path health_request = ''/health''
   \<and> fst (serve example_whisper
            (serve_all example_whisper started_process [transcription_request, health_request])
            health_request) =
       Response 200 (PyDict [(''status'', PyStr ''ok''), (''model'', PyStr ''base'')])"
proof -
  have m: "req_method health_request = GET" and q: "req_path health_request = ''/health''"
    by (simp_all add: health_request_def)
  show ?thesis
    using started m q
      health_returns_ok [OF started m q, of "[transcription_request, health_request]"]
    by simp
qed

text \<open>
  C3. Executing the module calls \<^verbatim>\<open>WhisperModel\<close> once, with the size \<^verbatim>\<open>"base"\<close>.
  After any sequence of requests the global \<^verbatim>\<open>model\<close> is still the instance which that
  call returned, the trace of library calls begins with that constructor call, and every
  later call in it is a \<^verbatim>\<open>transcribe\<close> call on that same instance: no request
  constructs or replaces a model.
\<close>

theorem model_loaded_once_at_startup:
  assumes "module_init lib = Inr p0"
  shows "\<exists>m cs. WhisperModel lib ''base'' ''cpu'' ''int8'' = Inr m
           \<and> model (globals (serve_all lib p0 reqs)) = m
           \<and> calls (serve_all lib p0 reqs) = WhisperModel_call ''base'' ''cpu'' ''int8'' # cs
           \<and> (\<forall>c\<in>set cs. \<exists>audio. c = transcribe_call m audio 5 ''es'')"
proof -
  obtain m where m: "WhisperModel lib ''base'' ''cpu'' ''int8'' = Inr m"
    and g: "model (globals p0) = m"
    and c: "calls p0 = [WhisperModel_call ''base'' ''cpu'' ''int8'']"
    using module_init_result [OF assms] by blast
  obtain cs where cs: "calls (serve_all lib p0 reqs) = calls p0 @ cs"
    and tr: "\<forall>c\<in>set cs. \<exists>audio. c = transcribe_call (model (globals p0)) audio 5 ''es''"
    using serve_all_calls [of lib p0 reqs] by blast
  have "model (globals (serve_all lib p0 reqs)) = m"
    using g by (simp add: serve_all_globals)
  moreover have "calls (serve_all lib p0 reqs) = WhisperModel_call ''base'' ''cpu'' ''int8'' # cs"
    using cs c by simp
  moreover have "\<forall>c\<in>set cs. \<exists>audio. c = transcribe_call m audio 5 ''es''"
    using tr g by simp
  ultimately show ?thesis
    using m by (intro exI conjI)
qed

theorem model_loaded_once_at_startup_witness:
  "module_init example_whisper = Inr started_process
   \<and> (\<exists>m cs. WhisperModel example_whisper ''base'' ''cpu'' ''int8'' = Inr m
           \<and> model (globals (serve_all example_whisper started_process
                                [transcription_request, health_request, english_request])) = m
           \<and> calls (serve_all example_whisper started_process
                      [transcription_request, health_request, english_request])
               = WhisperModel_call ''base'' ''cpu'' ''int8'' # cs
           \<and> (\<forall>c\<in>set cs. \<exists>audio. c = transcribe_call m audio 5 ''es''))"
proof
  show "module_init example_whisper = Inr started_process"
    by (rule started)
  show "\<exists>m cs. WhisperModel example_whisper ''base'' ''cpu'' ''int8'' = Inr m
           \<and> model (globals (serve_all example_whisper started_process
                                [transcription_request, health_request, english_request])) = m
           \<and> calls (serve_all example_whisper started_process
                      [transcription_request, health_request, english_request])
               = WhisperModel_call ''base'' ''cpu'' ''int8'' # cs
           \<and> (\<forall>c\<in>set cs. \<exists>audio. c = transcribe_call m audio 5 ''es'')"
    by (rule model_loaded_once_at_startup [OF started])
qed

text \<open>
  C4. On the success path the \<^verbatim>\<open>text\<close> entry is \<^verbatim>\<open>" ".join\<close> of the texts of the
  segments the library yielded, all of them and in their order; nothing else enters it.
  Joining loses nothing: when there is a segment and no text holds a space, splitting the
  result at its spaces gives back exactly the list of the segment texts.
\<close>

theorem transcription_text_only_from_segments:
  assumes "UploadFile_read file (- 1) = Inr b"
      and "transcribe lib (model (globals p)) (BytesIO b) 5 ''es'' = Inr (Iterable segs None, info)"
  shows "\<exists>t. fst (transcribe_audio lib p file) = Inr (PyDict [(''text'', PyStr t)])
           \<and> t = str_join '' '' (map text segs)
           \<and> (segs \<noteq> [] \<and> (\<forall>s\<in>set segs. CHR '' '' \<notin> set (text s))
                \<longrightarrow> split_on CHR '' '' t = map text segs)"
proof -
  have "split_on CHR '' '' (str_join '' '' (map text segs)) = map text segs"
    if "segs \<noteq> []" and "\<forall>s\<in>set segs. CHR '' '' \<notin> set (text s)"
    using that split_on_str_join [of "map text segs" "CHR '' ''"] by simp
  then show ?thesis
    using transcribe_audio_success [OF assms] by simp
qed

theorem transcription_text_only_from_segments_witness:
  "UploadFile_read example_upload (- 1) = Inr [0x52, 0x49, 0x46, 0x46]
   \<and> transcribe example_whisper (model (globals started_process)) (BytesIO [0x52, 0x49, 0x46, 0x46]) 5 ''es''
       = Inr (Iterable example_segments None, ())
   \<and> fst (transcribe_audio example_whisper started_process example_upload)
       = Inr (PyDict [(''text'', PyStr ''Hola mundo'')])
   \<and> split_on CHR '' '' ''Hola mundo'' = map text example_segments"
proof -
  have r: "UploadFile_read example_upload (- 1) = Inr [0x52, 0x49, 0x46, 0x46]"
    by (simp add: UploadFile_read_def example_upload_def)
  have t: "transcribe example_whisper (model (globals started_process)) (BytesIO [0x52, 0x49, 0x46, 0x46]) 5 ''es''
       = Inr (Iterable example_segments None, ())"
    by (simp add: example_whisper_def)
  show ?thesis
    using r t transcription_text_only_from_segments [OF r t]
    by (auto simp add: example_segments_def)
qed

text \<open>
  C5 (as amended). The program registers exactly two routes of its own,
  \<^verbatim>\<open>GET /health\<close> and \<^verbatim>\<open>POST /v1/audio/transcriptions\<close>: after the module is
  executed and after any sequence of requests, the routes of the application are the four
  documentation routes that \<^verbatim>\<open>FastAPI()\<close> has by itself (\<^verbatim>\<open>/openapi.json\<close>,
  \<^verbatim>\<open>/docs\<close>, \<^verbatim>\<open>/docs/oauth2-redirect\<close>, \<^verbatim>\<open>/redoc\<close>) followed by these two. A
  request with any other method and path runs no handler of the program: the framework
  alone answers it and the process stays as it was. The two routes are therefore not the
  only endpoints: \<^verbatim>\<open>GET /docs\<close> is answered with 200.
\<close>

theorem program_registers_two_routes:
  assumes "module_init lib = Inr p0" and "p = serve_all lib p0 reqs"
  shows "routes (app (globals p)) =
           routes FastAPI @
           [\<lparr>route_methods = [GET], route_path = ''/health'',
             route_status_code = None, route_endpoint = Endpoint_health\<rparr>,
            \<lparr>route_methods = [POST], route_path = ''/v1/audio/transcriptions'',
             route_status_code = None, route_endpoint = Endpoint_transcribe_audio\<rparr>]
         \<and> map route_path (routes FastAPI) =
             [''/openapi.json'', ''/docs'', ''/docs/oauth2-redirect'', ''/redoc'']
         \<and> ((req_method req, req_path req) \<noteq> (GET, ''/health'')
            \<and> (req_method req, req_path req) \<noteq> (POST, ''/v1/audio/transcriptions'')
            \<longrightarrow> (\<exists>c. serve lib p req = (Framework_response c, p)))"
proof -
  have g: "globals p = globals p0"
    using assms(2) by (simp add: serve_all_globals)
  have "\<exists>c. serve lib p req = (Framework_response c, p)"
    if "(req_method req, req_path req) \<noteq> (GET, ''/health'')"
      and "(req_method req, req_path req) \<noteq> (POST, ''/v1/audio/transcriptions'')"
    using serve_other [OF assms(1) g that] .
  moreover have "map route_path (routes FastAPI) =
             [''/openapi.json'', ''/docs'', ''/docs/oauth2-redirect'', ''/redoc'']"
    by (simp add: FastAPI_def)
  ultimately show ?thesis
    using module_init_routes [OF assms(1) g] by blast
qed

theorem program_registers_two_routes_witness:
  "module_init example_whisper = Inr started_process
   \<and> map (\<lambda>r. (route_methods r, route_path r))
         (routes (app (globals (serve_all example_whisper started_process [transcription_request]))))
       = [([GET, HEAD], ''/openapi.json''), ([GET, HEAD], ''/docs''),
          ([GET, HEAD], ''/docs/oauth2-redirect''), ([GET, HEAD], ''/redoc''),
          ([GET], ''/health''), ([POST], ''/v1/audio/transcriptions'')]
   \<and> (req_method preflight_request, req_path preflight_request) \<noteq> (GET, ''/health'')
   \<and> (req_method preflight_request, req_path preflight_request)
       \<noteq> (POST, ''/v1/audio/transcriptions'')
   \<and> (\<exists>c. serve example_whisper (serve_all example_whisper started_process [transcription_request])
              preflight_request
            = (Framework_response c,
               serve_all example_whisper started_process [transcription_request]))"
proof -
  have a: "(req_method preflight_request, req_path preflight_request) \<noteq> (GET, ''/health'')"
    and b: "(req_method preflight_request, req_path preflight_request)
              \<noteq> (POST, ''/v1/audio/transcriptions'')"
    by (simp_all add: preflight_request_def)
  have t: "routes (app (globals (serve_all example_whisper started_process [transcription_request])))
            = routes (app (globals started_process))"
    by (simp only: serve_all_globals)
  have m: "map (\<lambda>r. (route_methods r, route_path r))
         (routes (app (globals (serve_all example_whisper started_process [transcription_request]))))
       = [([GET, HEAD], ''/openapi.json''), ([GET, HEAD], ''/docs''),
          ([GET, HEAD], ''/docs/oauth2-redirect''), ([GET, HEAD], ''/redoc''),
          ([GET], ''/health''), ([POST], ''/v1/audio/transcriptions'')]"
    unfolding t by (simp add: started_process_def)
  from program_registers_two_routes [OF started refl, of "[transcription_request]" preflight_request]
  have "\<exists>c. serve example_whisper (serve_all example_whisper started_process [transcription_request])
              preflight_request
            = (Framework_response c,
               serve_all example_whisper started_process [transcription_request])"
    using a b by blast
  then show ?thesis
    using started m a b by blast
qed

theorem documentation_routes_are_served:
  "module_init example_whisper = Inr started_process
   \<and> length (routes (app (globals started_process))) = 6
   \<and> req_method docs_request = GET \<and> req_path docs_request = ''/docs''
   \<and> serve example_whisper started_process docs_request = (Framework_response 200, started_process)"
proof -
  have "serve example_whisper started_process docs_request = (Framework_response 200, started_process)"
    by (simp add: serve_def router_def matches_def call_endpoint_def docs_request_def
        started_process_def CORSMiddleware_call_def)
  then show ?thesis
    using started by (simp add: docs_request_def started_process_def)
qed

text \<open>
  C6. Serving a request, whatever its method, path, upload and outcome, leaves the globals
  (the application with its routes, \<^verbatim>\<open>MODEL_SIZE\<close>, \<^verbatim>\<open>model\<close>) as they were, and
  so does any sequence of requests. Nothing is kept between requests: the trace of
  library calls is all that grows, and no response depends on it.
\<close>

theorem requests_change_no_global:
  "globals (snd (serve lib p req)) = globals p
   \<and> globals (serve_all lib p reqs) = globals p
   \<and> fst (serve lib (p\<lparr>calls := cs\<rparr>) req) = fst (serve lib p req)"
  by (simp add: serve_globals serve_all_globals serve_history)

text \<open>
  C7. The handler takes one upload. Reading it with no size returns its whole content or
  raises. After a successful read the handler calls \<^verbatim>\<open>transcribe\<close> of the global model
  exactly once, on a \<^verbatim>\<open>BytesIO\<close> of exactly those bytes with beam size 5 and language
  \<^verbatim>\<open>"es"\<close>, and what it returns is made from the answer of that call and from nothing
  else of the library: a library that answers this one call alike gives the same result.
  After a failed read it makes no call.
\<close>

theorem transcribe_called_with_uploaded_bytes:
  "UploadFile_read file (- 1) =
     (case read_error file of None \<Rightarrow> Inr (content file) | Some e \<Rightarrow> Inl e)
   \<and> fst (transcribe_audio lib p file) =
       (let handler = (\<lambda>e. case exc_class_of e of
                              Exception_subclass \<Rightarrow>
                                Inr (PyTuple [PyDict [(''error'', PyStr (str_of e))], PyInt 500])
                            | BaseException_only \<Rightarrow> Inl e)
        in case read_error file of
             Some e \<Rightarrow> handler e
           | None \<Rightarrow>
               (case transcribe lib (model (globals p)) (BytesIO (content file)) 5 ''es'' of
                  Inl e \<Rightarrow> handler e
                | Inr (segments, info) \<Rightarrow>
                    (case raises segments of
                       Some e \<Rightarrow> handler e
                     | None \<Rightarrow>
                         Inr (PyDict [(''text'',
                                PyStr (str_join '' '' (map text (yields segments))))]))))
   \<and> calls (snd (transcribe_audio lib p file)) =
       calls p @ (case read_error file of
                    None \<Rightarrow> [transcribe_call (model (globals p)) (BytesIO (content file)) 5 ''es'']
                  | Some e \<Rightarrow> [])
   \<and> (transcribe lib2 (model (globals p)) (BytesIO (content file)) 5 ''es''
         = transcribe lib (model (globals p)) (BytesIO (content file)) 5 ''es''
       \<longrightarrow> fst (transcribe_audio lib2 p file) = fst (transcribe_audio lib p file))"
proof -
  have outcome: "fst (transcribe_audio l p file) =
       (let handler = (\<lambda>e. case exc_class_of e of
                              Exception_subclass \<Rightarrow>
                                Inr (PyTuple [PyDict [(''error'', PyStr (str_of e))], PyInt 500])
                            | BaseException_only \<Rightarrow> Inl e)
        in case read_error file of
             Some e \<Rightarrow> handler e
           | None \<Rightarrow>
               (case transcribe l (model (globals p)) (BytesIO (content file)) 5 ''es'' of
                  Inl e \<Rightarrow> handler e
                | Inr (segments, info) \<Rightarrow>
                    (case raises segments of
                       Some e \<Rightarrow> handler e
                     | None \<Rightarrow>
                         Inr (PyDict [(''text'',
                                PyStr (str_join '' '' (map text (yields segments))))]))))"
    for l :: "('a, 'b, 'c) faster_whisper"
    by (simp add: transcribe_audio_fst transcribe_audio_try_def read_all list_comprehension_def
        Let_def split: option.splits sum.splits prod.splits)
  have "fst (transcribe_audio lib2 p file) = fst (transcribe_audio lib p file)"
    if "transcribe lib2 (model (globals p)) (BytesIO (content file)) 5 ''es''
         = transcribe lib (model (globals p)) (BytesIO (content file)) 5 ''es''"
    using that by (simp only: outcome)
  then show ?thesis
    using outcome [of lib] by (simp add: read_all transcribe_audio_calls split: option.splits)
qed

theorem transcribe_called_with_uploaded_bytes_witness:
  "transcribe bilingual_whisper (model (globals started_process)) (BytesIO (content example_upload)) 5 ''es''
     = transcribe example_whisper (model (globals started_process)) (BytesIO (content example_upload)) 5 ''es''
   \<and> transcribe bilingual_whisper (model (globals started_process)) (BytesIO (content example_upload)) 5 ''en''
     \<noteq> transcribe example_whisper (model (globals started_process)) (BytesIO (content example_upload)) 5 ''en''
   \<and> fst (transcribe_audio bilingual_whisper started_process example_upload)
     = fst (transcribe_audio example_whisper started_process example_upload)
   \<and> fst (transcribe_audio example_whisper started_process example_upload)
     = Inr (PyDict [(''text'', PyStr ''Hola mundo'')])
   \<and> calls (snd (transcribe_audio example_whisper started_process example_upload))
     = [WhisperModel_call ''base'' ''cpu'' ''int8'',
        transcribe_call 0 (BytesIO [0x52, 0x49, 0x46, 0x46]) 5 ''es'']"
proof -
  have same: "transcribe bilingual_whisper (model (globals started_process)) (BytesIO (content example_upload)) 5 ''es''
     = transcribe example_whisper (model (globals started_process)) (BytesIO (content example_upload)) 5 ''es''"
    by (simp add: bilingual_whisper_def example_whisper_def example_upload_def)
  have other: "transcribe bilingual_whisper (model (globals started_process)) (BytesIO (content example_upload)) 5 ''en''
     \<noteq> transcribe example_whisper (model (globals started_process)) (BytesIO (content example_upload)) 5 ''en''"
    by (simp add: bilingual_whisper_def example_whisper_def example_upload_def example_segments_def)
  note w = transcribe_called_with_uploaded_bytes
             [of example_upload example_whisper started_process bilingual_whisper]
  have eq: "fst (transcribe_audio bilingual_whisper started_process example_upload)
     = fst (transcribe_audio example_whisper started_process example_upload)"
    using w same by blast
  have res: "fst (transcribe_audio example_whisper started_process example_upload)
     = Inr (PyDict [(''text'', PyStr ''Hola mundo'')])"
    using w by (simp add: example_whisper_def example_upload_def example_segments_def)
  have tr: "calls (snd (transcribe_audio example_whisper started_process example_upload))
     = [WhisperModel_call ''base'' ''cpu'' ''int8'',
        transcribe_call 0 (BytesIO [0x52, 0x49, 0x46, 0x46]) 5 ''es'']"
    using w by (simp add: example_upload_def started_process_def)
  show ?thesis
    using same other eq res tr by blast
qed

text \<open>
  C8 (as amended). When reading the upload, the call of \<^verbatim>\<open>transcribe\<close> or the iteration
  of the segments raises an exception that is an instance of \<^verbatim>\<open>Exception\<close>, the handler
  does not propagate it and returns the pair \<^verbatim>\<open>({"error": str(e)}, 500)\<close>. When the
  exception derives from \<^verbatim>\<open>BaseException\<close> only, \<^verbatim>\<open>except Exception\<close> does not catch
  it and it leaves the handler, at each of the three places.
\<close>

theorem transcribe_audio_catches_only_Exception:
  assumes "UploadFile_read file (- 1) = Inl e
           \<or> (\<exists>b. UploadFile_read file (- 1) = Inr b
                \<and> (transcribe lib (model (globals p)) (BytesIO b) 5 ''es'' = Inl e
                   \<or> (\<exists>segs info. transcribe lib (model (globals p)) (BytesIO b) 5 ''es''
                                     = Inr (Iterable segs (Some e), info))))"
  shows "fst (transcribe_audio lib p file) =
           (case exc_class_of e of
              Exception_subclass \<Rightarrow>
                Inr (PyTuple [PyDict [(''error'', PyStr (str_of e))], PyInt 500])
            | BaseException_only \<Rightarrow> Inl e)"
proof -
  have "fst (transcribe_audio_try lib p file) = Inl e"
    using assms
    by (auto simp add: transcribe_audio_try_def list_comprehension_def Let_def)
  then show ?thesis
    by (simp add: transcribe_audio_fst)
qed

theorem transcribe_audio_catches_only_Exception_witness:
  "UploadFile_read empty_upload (- 1) = Inr []
   \<and> transcribe example_whisper (model (globals started_process)) (BytesIO []) 5 ''es''
       = Inl (Raised Exception_subclass ''Invalid data found when processing input'')
   \<and> fst (transcribe_audio example_whisper started_process empty_upload) =
       Inr (PyTuple [PyDict [(''error'', PyStr ''Invalid data found when processing input'')], PyInt 500])
   \<and> UploadFile_read example_upload (- 1) = Inr [0x52, 0x49, 0x46, 0x46]
   \<and> transcribe interrupted_whisper (model (globals started_process)) (BytesIO [0x52, 0x49, 0x46, 0x46]) 5 ''es''
       = Inr (Iterable [\<lparr>text = ''Hola''\<rparr>] (Some (Raised BaseException_only [])), ())
   \<and> fst (transcribe_audio interrupted_whisper started_process example_upload) =
       Inl (Raised BaseException_only [])"
proof -
  have r: "UploadFile_read empty_upload (- 1) = Inr []"
    by (simp add: UploadFile_read_def empty_upload_def)
  have t: "transcribe example_whisper (model (globals started_process)) (BytesIO []) 5 ''es''
       = Inl (Raised Exception_subclass ''Invalid data found when processing input'')"
    by (simp add: example_whisper_def)
  from r t have d: "UploadFile_read empty_upload (- 1) = Inl (Raised Exception_subclass ''Invalid data found when processing input'')
           \<or> (\<exists>b. UploadFile_read empty_upload (- 1) = Inr b
                \<and> (transcribe example_whisper (model (globals started_process)) (BytesIO b) 5 ''es'' = Inl (Raised Exception_subclass ''Invalid data found when processing input'')
                   \<or> (\<exists>segs info. transcribe example_whisper (model (globals started_process)) (BytesIO b) 5 ''es''
                                     = Inr (Iterable segs (Some (Raised Exception_subclass ''Invalid data found when processing input'')), info))))"
    by blast
  have r2: "UploadFile_read example_upload (- 1) = Inr [0x52, 0x49, 0x46, 0x46]"
    by (simp add: UploadFile_read_def example_upload_def)
  have t2: "transcribe interrupted_whisper (model (globals started_process)) (BytesIO [0x52, 0x49, 0x46, 0x46]) 5 ''es''
       = Inr (Iterable [\<lparr>text = ''Hola''\<rparr>] (Some (Raised BaseException_only [])), ())"
    by (simp add: interrupted_whisper_def)
  from r2 t2 have d2: "UploadFile_read example_upload (- 1) = Inl (Raised BaseException_only [])
           \<or> (\<exists>b. UploadFile_read example_upload (- 1) = Inr b
                \<and> (transcribe interrupted_whisper (model (globals started_process)) (BytesIO b) 5 ''es'' = Inl (Raised BaseException_only [])
                   \<or> (\<exists>segs info. transcribe interrupted_whisper (model (globals started_process)) (BytesIO b) 5 ''es''
                                     = Inr (Iterable segs (Some (Raised BaseException_only [])), info))))"
    by blast
  have a: "fst (transcribe_audio example_whisper started_process empty_upload) =
       Inr (PyTuple [PyDict [(''error'', PyStr ''Invalid data found when processing input'')], PyInt 500])"
    using transcribe_audio_catches_only_Exception [OF d] by simp
  have b: "fst (transcribe_audio interrupted_whisper started_process example_upload) =
       Inl (Raised BaseException_only [])"
    using transcribe_audio_catches_only_Exception [OF d2] by simp
  show ?thesis
    using r t a r2 t2 b by blast
qed

theorem transcribe_audio_propagates_BaseException:
  "UploadFile_read cancelled_upload (- 1) = Inl (Raised BaseException_only [])
   \<and> fst (transcribe_audio example_whisper started_process cancelled_upload)
       = Inl (Raised BaseException_only [])"
  by (simp add: UploadFile_read_def cancelled_upload_def transcribe_audio_def
      transcribe_audio_try_def)

text \<open>
  C9. Two requests to \<^verbatim>\<open>POST /v1/audio/transcriptions\<close> whose uploads have the same
  bytes, whatever their file names and other form fields, invoke the model with the same
  arguments: the global model, a \<^verbatim>\<open>BytesIO\<close> of those bytes, beam size 5 and language
  \<^verbatim>\<open>"es"\<close> (and make no call when the read raises). When their reads behave alike, the
  whole outcome is the same.
\<close>

theorem transcription_depends_only_on_bytes:
  assumes "module_init lib = Inr p0" and "p = serve_all lib p0 reqs"
      and "req_method r1 = POST" and "req_path r1 = ''/v1/audio/transcriptions''"
      and "req_method r2 = POST" and "req_path r2 = ''/v1/audio/transcriptions''"
      and "req_file r1 = Some f1" and "req_file r2 = Some f2"
      and "content f1 = content f2"
  shows "calls (snd (serve lib p r1)) =
           calls p @ (case read_error f1 of
                        None \<Rightarrow> [transcribe_call (model (globals p0)) (BytesIO (content f1)) 5 ''es'']
                      | Some e \<Rightarrow> [])
       \<and> calls (snd (serve lib p r2)) =
           calls p @ (case read_error f2 of
                        None \<Rightarrow> [transcribe_call (model (globals p0)) (BytesIO (content f1)) 5 ''es'']
                      | Some e \<Rightarrow> [])
       \<and> (read_error f1 = read_error f2 \<longrightarrow> serve lib p r1 = serve lib p r2)"
proof -
  have g: "globals p = globals p0"
    using assms(2) by (simp add: serve_all_globals)
  have s1: "snd (serve lib p r1) = snd (transcribe_audio lib p f1)"
    using serve_transcription [OF assms(1) g assms(3,4,7)]
    by (simp add: reply_snd)
  have s2: "snd (serve lib p r2) = snd (transcribe_audio lib p f2)"
    using serve_transcription [OF assms(1) g assms(5,6,8)]
    by (simp add: reply_snd)
  have same: "transcribe_audio lib p f1 = transcribe_audio lib p f2" if "read_error f1 = read_error f2"
  proof -
    have "UploadFile_read f1 (- 1) = UploadFile_read f2 (- 1)"
      using that assms(9) by (simp add: read_all split: option.splits)
    then show ?thesis
      by (simp add: transcribe_audio_def transcribe_audio_try_def)
  qed
  have "serve lib p r1 = serve lib p r2" if "read_error f1 = read_error f2"
    using serve_transcription [OF assms(1) g assms(3,4,7)]
      serve_transcription [OF assms(1) g assms(5,6,8)] same [OF that]
    by simp
  then show ?thesis
    using s1 s2 g assms(9) by (simp add: transcribe_audio_calls split: option.splits)
qed

theorem transcription_depends_only_on_bytes_witness:
  "module_init example_whisper = Inr started_process
   \<and> req_method transcription_request = POST
   \<and> req_path transcription_request = ''/v1/audio/transcriptions''
   \<and> req_method english_request = POST
   \<and> req_path english_request = ''/v1/audio/transcriptions''
   \<and> req_form transcription_request \<noteq> req_form english_request
   \<and> req_file transcription_request = Some example_upload
   \<and> req_file english_request = Some (example_upload\<lparr>filename := ''speech.mp3''\<rparr>)
   \<and> calls (snd (serve example_whisper started_process transcription_request)) =
       [WhisperModel_call ''base'' ''cpu'' ''int8'',
        transcribe_call 0 (BytesIO [0x52, 0x49, 0x46, 0x46]) 5 ''es'']
   \<and> calls (snd (serve example_whisper started_process english_request)) =
       [WhisperModel_call ''base'' ''cpu'' ''int8'',
        transcribe_call 0 (BytesIO [0x52, 0x49, 0x46, 0x46]) 5 ''es'']
   \<and> serve example_whisper started_process transcription_request
       = serve example_whisper started_process english_request"
proof -
  have p: "started_process = serve_all example_whisper started_process []"
    by simp
  have m1: "req_method transcription_request = POST"
    and q1: "req_path transcription_request = ''/v1/audio/transcriptions''"
    and f1: "req_file transcription_request = Some example_upload"
    by (simp_all add: transcription_request_def)
  have m2: "req_method english_request = POST"
    and q2: "req_path english_request = ''/v1/audio/transcriptions''"
    and f2: "req_file english_request = Some (example_upload\<lparr>filename := ''speech.mp3''\<rparr>)"
    by (simp_all add: english_request_def)
  have c: "content example_upload = content (example_upload\<lparr>filename := ''speech.mp3''\<rparr>)"
    by simp
  have d: "req_form transcription_request \<noteq> req_form english_request"
    by (simp add: transcription_request_def english_request_def)
  show ?thesis
    using started m1 q1 m2 q2 f1 f2 d
      transcription_depends_only_on_bytes [OF started p m1 q1 m2 q2 f1 f2 c]
    by (simp add: example_upload_def started_process_def)
qed

end
